theory Spec2Isabelle
  imports Complex_Main "HOL-Library.Sublist" "HOL-Library.Code_Target_Numeral"
begin

section \<open>JavaScript values used as identifiers\<close>

text \<open>
  Gauge identifiers are the \<^verbatim>\<open>STREAM_ID\<close> property of a GeoJSON feature, so they are
  arbitrary JSON primitives. Numbers are restricted to integers here; on these values
  \<^verbatim>\<open>===\<close>, \<^verbatim>\<open>Array.prototype.includes\<close> and \<^verbatim>\<open>Set\<close> membership all coincide with
  equality. \<open>truthy\<close> is JavaScript's \<^verbatim>\<open>Boolean(v)\<close>.
\<close>

datatype jsval = JUndefined | JNull | JBool bool | JNum int | JStr string

fun truthy :: "jsval \<Rightarrow> bool" where
  "truthy JUndefined = False"
| "truthy JNull = False"
| "truthy (JBool b) = b"
| "truthy (JNum n) = (n \<noteq> 0)"
| "truthy (JStr s) = (s \<noteq> [])"

text \<open>
  \<^verbatim>\<open>[...new Set(xs)]\<close>: a \<^verbatim>\<open>Set\<close> keeps its elements in the order of their first
  insertion.
\<close>

fun setInsertAll :: "'a list \<Rightarrow> 'a list \<Rightarrow> 'a list" where
  "setInsertAll acc [] = acc"
| "setInsertAll acc (x # xs) = setInsertAll (if x \<in> set acc then acc else acc @ [x]) xs"

definition newSet :: "'a list \<Rightarrow> 'a list" where
  "newSet xs = setInsertAll [] xs"

section \<open>Plain objects used as dictionaries\<close>

text \<open>
  \<^verbatim>\<open>selectedDomainGaugeMap\<close> is a plain object keyed by domain code. It is modelled as
  the list of its own properties in creation order. Enumeration
  (\<^verbatim>\<open>Object.keys\<close>, \<^verbatim>\<open>Object.values\<close>, spread) lists the keys that are canonical array
  indices first, in ascending numeric order, then the other keys in creation order.
\<close>

type_synonym 'v jsobject = "(string \<times> 'v) list"

definition isDigit :: "char \<Rightarrow> bool" where
  "isDigit c = (48 \<le> (of_char c :: nat) \<and> (of_char c :: nat) \<le> 57)"

definition decimalValue :: "string \<Rightarrow> nat" where
  "decimalValue s = foldl (\<lambda>n c. 10 * n + ((of_char c :: nat) - 48)) 0 s"

definition isArrayIndex :: "string \<Rightarrow> bool" where
  "isArrayIndex s =
     (s \<noteq> [] \<and> list_all isDigit s \<and> (s = ''0'' \<or> hd s \<noteq> CHR ''0'')
      \<and> decimalValue s < 4294967295)"

definition ownEntries :: "'v jsobject \<Rightarrow> 'v jsobject" where
  "ownEntries m =
     sort_key (\<lambda>kv. decimalValue (fst kv)) (filter (\<lambda>kv. isArrayIndex (fst kv)) m)
     @ filter (\<lambda>kv. \<not> isArrayIndex (fst kv)) m"

definition objectKeys :: "'v jsobject \<Rightarrow> string list" where
  "objectKeys m = map fst (ownEntries m)"

definition objectValues :: "'v jsobject \<Rightarrow> 'v list" where
  "objectValues m = map snd (ownEntries m)"

text \<open>\<^verbatim>\<open>{ ...m }\<close>: a fresh object whose properties are created in enumeration order.\<close>

definition objectSpread :: "'v jsobject \<Rightarrow> 'v jsobject" where
  "objectSpread m = ownEntries m"

text \<open>\<^verbatim>\<open>m[k] = v\<close>: an existing property keeps its position, a new one is created last.\<close>

fun objectSet :: "'v jsobject \<Rightarrow> string \<Rightarrow> 'v \<Rightarrow> 'v jsobject" where
  "objectSet [] k v = [(k, v)]"
| "objectSet (p # ps) k v = (if fst p = k then (k, v) # ps else p # objectSet ps k v)"

definition objectDelete :: "'v jsobject \<Rightarrow> string \<Rightarrow> 'v jsobject" where
  "objectDelete m k = filter (\<lambda>kv. fst kv \<noteq> k) m"

text \<open>
  The properties every plain object inherits from \<^verbatim>\<open>Object.prototype\<close>; reading one
  of them through \<^verbatim>\<open>m[k]\<close> gives a function (or, for \<^verbatim>\<open>__proto__\<close>, the prototype
  object), which is truthy.
\<close>

definition objectPrototypeKeys :: "string list" where
  "objectPrototypeKeys =
     [''constructor'', ''__defineGetter__'', ''__defineSetter__'', ''hasOwnProperty'',
      ''__lookupGetter__'', ''__lookupSetter__'', ''isPrototypeOf'',
      ''propertyIsEnumerable'', ''toString'', ''valueOf'', ''__proto__'',
      ''toLocaleString'']"

text \<open>
  \<^verbatim>\<open>if (m[k])\<close> for an object whose own values are arrays (always truthy): the test
  succeeds for an own property and for an inherited one.
\<close>

definition hasTruthyProperty :: "'v jsobject \<Rightarrow> string \<Rightarrow> bool" where
  "hasTruthyProperty m k = (map_of m k \<noteq> None \<or> k \<in> set objectPrototypeKeys)"

section \<open>The streams store: selection state\<close>

text \<open>
  The selection refs of \<^verbatim>\<open>useStreamsStore\<close> (stores/streams.js). The session, options
  and loading refs are not touched by the selection operations and are left out. Domain
  codes are strings: the caller passes the \<^verbatim>\<open>code\<close> field of
  \<^verbatim>\<open>extractWatershedMetadata\<close>, which is built with \<^verbatim>\<open>String(...)\<close>, and the codes
  become property names. A call that omits the list argument of \<^verbatim>\<open>setSelectedGauges\<close>
  or \<^verbatim>\<open>toggleDomainSelection\<close> is a call with the empty list.
\<close>

record store =
  selectedGaugeIds :: "jsval list"
  selectedDomainCodes :: "string list"
  selectedDomainGaugeMap :: "jsval list jsobject"
  selectionBy :: string
  selectionType :: string

definition initial_store :: store where
  "initial_store =
     \<lparr> selectedGaugeIds = [], selectedDomainCodes = [], selectedDomainGaugeMap = [],
       selectionBy = ''gauge'', selectionType = ''Single'' \<rparr>"

definition clearSelectedGauges :: "store \<Rightarrow> store" where
  "clearSelectedGauges s = s\<lparr>selectedGaugeIds := []\<rparr>"

definition clearSelectedDomains :: "store \<Rightarrow> store" where
  "clearSelectedDomains s = s\<lparr>selectedDomainCodes := [], selectedDomainGaugeMap := []\<rparr>"

definition clearSelections :: "store \<Rightarrow> store" where
  "clearSelections s = clearSelectedDomains (clearSelectedGauges s)"

definition setSelectionBy :: "string \<Rightarrow> store \<Rightarrow> store" where
  "setSelectionBy mode s = clearSelections (s\<lparr>selectionBy := mode\<rparr>)"

definition setSelectionType :: "string \<Rightarrow> store \<Rightarrow> store" where
  "setSelectionType mode s = clearSelections (s\<lparr>selectionType := mode\<rparr>)"

definition toggleGaugeSelection :: "jsval \<Rightarrow> store \<Rightarrow> store" where
  "toggleGaugeSelection gaugeId s =
     (if \<not> truthy gaugeId then s
      else if selectionType s = ''Single'' then s\<lparr>selectedGaugeIds := [gaugeId]\<rparr>
      else if gaugeId \<in> set (selectedGaugeIds s)
        then s\<lparr>selectedGaugeIds := filter (\<lambda>i. i \<noteq> gaugeId) (selectedGaugeIds s)\<rparr>
      else s\<lparr>selectedGaugeIds := selectedGaugeIds s @ [gaugeId]\<rparr>)"

definition setSelectedGauges :: "jsval list \<Rightarrow> store \<Rightarrow> store" where
  "setSelectedGauges gaugeIds s = s\<lparr>selectedGaugeIds := newSet (filter truthy gaugeIds)\<rparr>"

definition toggleDomainSelection :: "string \<Rightarrow> jsval list \<Rightarrow> store \<Rightarrow> store" where
  "toggleDomainSelection domainCode gaugeIdsForDomain s =
     (if domainCode = [] then s
      else
        let nextMap = objectSpread (selectedDomainGaugeMap s);
            nextGaugeIds = filter truthy (newSet gaugeIdsForDomain)
        in if selectionType s = ''Single''
           then s\<lparr> selectedDomainGaugeMap := [(domainCode, nextGaugeIds)],
                   selectedDomainCodes := [domainCode],
                   selectedGaugeIds := nextGaugeIds \<rparr>
           else
             let nextMap' = (if hasTruthyProperty nextMap domainCode
                             then objectDelete nextMap domainCode
                             else objectSet nextMap domainCode nextGaugeIds)
             in s\<lparr> selectedDomainGaugeMap := nextMap',
                    selectedDomainCodes := objectKeys nextMap',
                    selectedGaugeIds :=
                      newSet (filter truthy (concat (objectValues nextMap'))) \<rparr>)"

text \<open>The store's selection operations as commands, and a run of commands.\<close>

datatype store_op =
    ToggleGaugeSelection jsval
  | SetSelectedGauges "jsval list"
  | ToggleDomainSelection string "jsval list"
  | ClearSelectedGauges
  | ClearSelectedDomains
  | ClearSelections
  | SetSelectionBy string
  | SetSelectionType string

fun store_step :: "store \<Rightarrow> store_op \<Rightarrow> store" where
  "store_step s (ToggleGaugeSelection g) = toggleGaugeSelection g s"
| "store_step s (SetSelectedGauges gs) = setSelectedGauges gs s"
| "store_step s (ToggleDomainSelection d gs) = toggleDomainSelection d gs s"
| "store_step s ClearSelectedGauges = clearSelectedGauges s"
| "store_step s ClearSelectedDomains = clearSelectedDomains s"
| "store_step s ClearSelections = clearSelections s"
| "store_step s (SetSelectionBy m) = setSelectionBy m s"
| "store_step s (SetSelectionType m) = setSelectionType m s"

definition store_run :: "store \<Rightarrow> store_op list \<Rightarrow> store" where
  "store_run s ops = foldl store_step s ops"

text \<open>
  The selection invariant: both lists are duplicate-free and hold no falsy entry, and the
  map's property names are distinct and non-empty.
\<close>

definition store_inv :: "store \<Rightarrow> bool" where
  "store_inv s =
     (distinct (selectedGaugeIds s) \<and> list_all truthy (selectedGaugeIds s)
      \<and> distinct (selectedDomainCodes s) \<and> list_all (\<lambda>c. c \<noteq> []) (selectedDomainCodes s)
      \<and> distinct (map fst (selectedDomainGaugeMap s))
      \<and> list_all (\<lambda>c. c \<noteq> []) (map fst (selectedDomainGaugeMap s)))"



section \<open>Numbers and arrays\<close>

text \<open>
  Coordinates are JavaScript numbers. The model computes with exact rationals: rounding,
  overflow and the infinities of IEEE doubles are not represented. \<open>None\<close> stands for
  \<^verbatim>\<open>undefined\<close> read as a number, and for \<^verbatim>\<open>NaN\<close>: arithmetic on it gives \<open>None\<close>,
  every comparison with it is false, and it is falsy.
\<close>

type_synonym jsnum = "rat option"

definition num_lift2 :: "(rat \<Rightarrow> rat \<Rightarrow> rat) \<Rightarrow> jsnum \<Rightarrow> jsnum \<Rightarrow> jsnum" where
  "num_lift2 f a b =
     (case a of None \<Rightarrow> None | Some x \<Rightarrow> (case b of None \<Rightarrow> None | Some y \<Rightarrow> Some (f x y)))"

definition num_sub :: "jsnum \<Rightarrow> jsnum \<Rightarrow> jsnum" where
  "num_sub a b = num_lift2 (\<lambda>x y. x - y) a b"

definition num_add :: "jsnum \<Rightarrow> jsnum \<Rightarrow> jsnum" where
  "num_add a b = num_lift2 (\<lambda>x y. x + y) a b"

definition num_mul :: "jsnum \<Rightarrow> jsnum \<Rightarrow> jsnum" where
  "num_mul a b = num_lift2 (\<lambda>x y. x * y) a b"

text \<open>
  Division. A zero divisor would give an infinity or \<^verbatim>\<open>NaN\<close> in JavaScript; the model
  has no infinities and answers \<open>None\<close>. The only division of the containment test never
  has a zero divisor (lemma \<open>edgeDenominator_nonzero\<close> below).
\<close>

definition num_div :: "jsnum \<Rightarrow> jsnum \<Rightarrow> jsnum" where
  "num_div a b =
     (case a of None \<Rightarrow> None
      | Some x \<Rightarrow> (case b of None \<Rightarrow> None
                   | Some y \<Rightarrow> if y = 0 then None else Some (x / y)))"

definition num_gt :: "jsnum \<Rightarrow> jsnum \<Rightarrow> bool" where
  "num_gt a b = (case a of None \<Rightarrow> False | Some x \<Rightarrow> (case b of None \<Rightarrow> False | Some y \<Rightarrow> y < x))"

definition num_lt :: "jsnum \<Rightarrow> jsnum \<Rightarrow> bool" where
  "num_lt a b = (case a of None \<Rightarrow> False | Some x \<Rightarrow> (case b of None \<Rightarrow> False | Some y \<Rightarrow> x < y))"

text \<open>\<^verbatim>\<open>a || b\<close> on numbers: \<^verbatim>\<open>b\<close> when \<^verbatim>\<open>a\<close> is zero or \<^verbatim>\<open>NaN\<close>.\<close>

definition num_or :: "jsnum \<Rightarrow> jsnum \<Rightarrow> jsnum" where
  "num_or a b = (case a of None \<Rightarrow> b | Some x \<Rightarrow> if x = 0 then b else Some x)"

text \<open>\<^verbatim>\<open>xs[i]\<close>, and a destructuring read: \<^verbatim>\<open>undefined\<close> past the end of the array.\<close>

definition elem :: "'a list \<Rightarrow> nat \<Rightarrow> 'a option" where
  "elem xs i = (if i < length xs then Some (xs ! i) else None)"

section \<open>The geometry containment test\<close>

text \<open>
  A position is an array of numbers \<^verbatim>\<open>[x, y, ...]\<close>, a ring an array of positions.
\<close>

type_synonym position = "rat list"
type_synonym ring = "position list"

definition edgeEpsilon :: rat where
  "edgeEpsilon = 1 / 10 ^ 12"

text \<open>\<^verbatim>\<open>(yj - yi || 1e-12)\<close>\<close>

definition edgeDenominator :: "jsnum \<Rightarrow> jsnum \<Rightarrow> jsnum" where
  "edgeDenominator yi yj = num_or (num_sub yj yi) (Some edgeEpsilon)"

text \<open>
  The body of the loop of \<^verbatim>\<open>isPointInRing\<close>: \<^verbatim>\<open>[xi, yi] = ring[i]\<close>,
  \<^verbatim>\<open>[xj, yj] = ring[j]\<close> and
  \<^verbatim>\<open>yi > py !== yj > py && px < ((xj - xi) * (py - yi)) / (yj - yi || 1e-12) + xi\<close>.
\<close>

definition edgeIntersects :: "jsnum \<Rightarrow> jsnum \<Rightarrow> position \<Rightarrow> position \<Rightarrow> bool" where
  "edgeIntersects px py p_i p_j =
     (let xi = elem p_i 0; yi = elem p_i 1; xj = elem p_j 0; yj = elem p_j 1
      in (num_gt yi py \<noteq> num_gt yj py)
         \<and> num_lt px
             (num_add (num_div (num_mul (num_sub xj xi) (num_sub py yi)) (edgeDenominator yi yj))
                xi))"

text \<open>
  \<^verbatim>\<open>for (let i = 0, j = ring.length - 1; i < ring.length; j = i++)\<close>. Inside the loop
  \<open>i\<close> and \<open>j\<close> are below the length of the ring: \<open>j\<close> starts at the last index of a
  ring that has an element and is afterwards the previous \<open>i\<close>.
\<close>

function isPointInRing_loop :: "jsnum \<Rightarrow> jsnum \<Rightarrow> ring \<Rightarrow> nat \<Rightarrow> nat \<Rightarrow> bool \<Rightarrow> bool" where
  "isPointInRing_loop px py ring i j inside =
     (if i < length ring
      then isPointInRing_loop px py ring (i + 1) i
             (if edgeIntersects px py (ring ! i) (ring ! j) then \<not> inside else inside)
      else inside)"
  by pat_completeness auto
termination
  by (relation "measure (\<lambda>(px, py, ring, i, j, inside). length ring - i)") auto

declare isPointInRing_loop.simps [simp del]

definition isPointInRing :: "jsnum \<times> jsnum \<Rightarrow> ring \<Rightarrow> bool" where
  "isPointInRing point ring =
     isPointInRing_loop (fst point) (snd point) ring 0 (length ring - 1) False"






subsection \<open>Even-odd ray casting, as the specification words it\<close>









text \<open>Example rings: a square, a hole inside it, and a square far away.\<close>

definition unit_square :: ring where
  "unit_square = [[0, 0], [4, 0], [4, 4], [0, 4], [0, 0]]"

definition square_hole :: ring where
  "square_hole = [[1, 1], [2, 1], [2, 2], [1, 2], [1, 1]]"

definition far_square :: ring where
  "far_square = [[10, 10], [12, 10], [12, 12], [10, 12], [10, 10]]"

section \<open>Watershed features and HUC codes\<close>























section \<open>The HUC6 click handler\<close>

















section \<open>The HUC10-by-HUC6 query\<close>



















section \<open>Properties of sets and objects\<close>

lemma set_setInsertAll: "set (setInsertAll acc xs) = set acc \<union> set xs"
  by (induction xs arbitrary: acc) auto

lemma distinct_setInsertAll: "distinct acc \<Longrightarrow> distinct (setInsertAll acc xs)"
  by (induction xs arbitrary: acc) auto

lemma set_newSet: "set (newSet xs) = set xs"
  by (simp add: newSet_def set_setInsertAll)

lemma distinct_newSet: "distinct (newSet xs)"
  by (simp add: newSet_def distinct_setInsertAll)

lemma set_ownEntries: "set (ownEntries m) = set m"
  by (auto simp: ownEntries_def)

lemma keys_ownEntries: "set (map fst (ownEntries m)) = set (map fst m)"
  using set_ownEntries [of m] by (metis set_map)

lemma distinct_map_insort_key:
  "distinct (map g (insort_key f x xs)) \<longleftrightarrow> g x \<notin> g ` set xs \<and> distinct (map g xs)"
  by (induction xs) (auto simp: set_insort_key)

lemma distinct_map_sort_key: "distinct (map g (sort_key f xs)) \<longleftrightarrow> distinct (map g xs)"
  by (induction xs) (auto simp: distinct_map_insort_key)

lemma distinct_ownEntries:
  assumes "distinct (map fst m)"
  shows "distinct (map fst (ownEntries m))"
proof -
  let ?ix = "filter (\<lambda>kv. isArrayIndex (fst kv)) m"
  let ?st = "filter (\<lambda>kv. \<not> isArrayIndex (fst kv)) m"
  have d1: "distinct (map fst (sort_key (\<lambda>kv. decimalValue (fst kv)) ?ix))"
    using assms by (simp add: distinct_map_sort_key distinct_map_filter)
  have d2: "distinct (map fst ?st)"
    using assms by (simp add: distinct_map_filter)
  have "set (map fst (sort_key (\<lambda>kv. decimalValue (fst kv)) ?ix)) \<inter> set (map fst ?st) = {}"
    by auto
  with d1 d2 show ?thesis
    unfolding ownEntries_def by (simp only: map_append distinct_append)
qed


lemma keys_objectSet: "set (map fst (objectSet m k v)) = insert k (set (map fst m))"
  by (induction m) auto

lemma distinct_objectSet: "distinct (map fst m) \<Longrightarrow> distinct (map fst (objectSet m k v))"
  by (induction m) (auto simp: keys_objectSet simp flip: set_map)


lemma keys_objectDelete: "set (map fst (objectDelete m k)) = set (map fst m) - {k}"
  by (auto simp: objectDelete_def)

lemma distinct_objectDelete: "distinct (map fst m) \<Longrightarrow> distinct (map fst (objectDelete m k))"
  by (simp add: objectDelete_def distinct_map_filter)



section \<open>Properties of the store\<close>

lemma store_inv_toggleGauge: "store_inv s \<Longrightarrow> store_inv (toggleGaugeSelection g s)"
  by (auto simp: store_inv_def toggleGaugeSelection_def list_all_iff)

lemma store_inv_setSelectedGauges: "store_inv s \<Longrightarrow> store_inv (setSelectedGauges gs s)"
  by (auto simp: store_inv_def setSelectedGauges_def list_all_iff distinct_newSet set_newSet)

lemma store_inv_toggleDomain:
  assumes "store_inv s"
  shows "store_inv (toggleDomainSelection d gs s)"
proof (cases "d = [] \<or> selectionType s = ''Single''")
  case True
  with assms show ?thesis
    by (auto simp: store_inv_def toggleDomainSelection_def Let_def list_all_iff
        distinct_newSet set_newSet)
next
  case False
  define m0 where "m0 = objectSpread (selectedDomainGaugeMap s)"
  define m1 where "m1 = (if hasTruthyProperty m0 d then objectDelete m0 d
                         else objectSet m0 d (filter truthy (newSet gs)))"
  have d0: "distinct (map fst m0)"
    using assms by (simp add: m0_def objectSpread_def store_inv_def distinct_ownEntries)
  have k0: "[] \<notin> set (map fst m0)"
    using assms keys_ownEntries [of "selectedDomainGaugeMap s"]
    by (auto simp: m0_def objectSpread_def store_inv_def list_all_iff simp del: set_map)
  have d1: "distinct (map fst m1)"
    using d0 by (simp add: m1_def distinct_objectSet distinct_objectDelete)
  have k1: "[] \<notin> set (map fst m1)"
    using k0 False by (auto simp: m1_def keys_objectSet keys_objectDelete simp del: set_map)
  have st: "toggleDomainSelection d gs s =
      s\<lparr> selectedDomainGaugeMap := m1, selectedDomainCodes := objectKeys m1,
         selectedGaugeIds := newSet (filter truthy (concat (objectValues m1))) \<rparr>"
    using False by (simp add: toggleDomainSelection_def Let_def m1_def m0_def)
  have "distinct (objectKeys m1)"
    using d1 by (simp add: objectKeys_def distinct_ownEntries)
  moreover have "[] \<notin> set (objectKeys m1)"
    using k1 keys_ownEntries [of m1] by (auto simp: objectKeys_def simp del: set_map)
  ultimately show ?thesis
    using d1 k1 by (auto simp: st store_inv_def list_all_iff distinct_newSet set_newSet simp del: set_map)
qed

lemma store_inv_step: "store_inv s \<Longrightarrow> store_inv (store_step s c)"
proof (cases c)
  case (ToggleGaugeSelection g)
  assume "store_inv s" then show ?thesis
    by (simp add: ToggleGaugeSelection store_inv_toggleGauge)
next
  case (SetSelectedGauges gs)
  assume "store_inv s" then show ?thesis
    by (simp add: SetSelectedGauges store_inv_setSelectedGauges)
next
  case (ToggleDomainSelection d gs)
  assume "store_inv s" then show ?thesis
    by (simp add: ToggleDomainSelection store_inv_toggleDomain)
qed (auto simp: store_inv_def clearSelectedGauges_def clearSelectedDomains_def
      clearSelections_def setSelectionBy_def setSelectionType_def)

lemma store_inv_run: "store_inv s \<Longrightarrow> store_inv (store_run s cs)"
  unfolding store_run_def by (induction cs arbitrary: s) (auto simp: store_inv_step)












section \<open>Switching mode or cardinality clears the selection\<close>

text \<open>
  C7. Every call of \<^verbatim>\<open>setSelectionBy\<close> and every call of \<^verbatim>\<open>setSelectionType\<close>, from
  any store state and with any argument, leaves \<^verbatim>\<open>selectedGaugeIds\<close> and
  \<^verbatim>\<open>selectedDomainCodes\<close> empty and \<^verbatim>\<open>selectedDomainGaugeMap\<close> without properties,
  and records the requested mode.
\<close>

theorem mode_switch_clears_selection:
  "selectedGaugeIds (setSelectionBy mode s) = []
   \<and> selectedDomainCodes (setSelectionBy mode s) = []
   \<and> selectedDomainGaugeMap (setSelectionBy mode s) = []
   \<and> selectionBy (setSelectionBy mode s) = mode
   \<and> selectedGaugeIds (setSelectionType mode s) = []
   \<and> selectedDomainCodes (setSelectionType mode s) = []
   \<and> selectedDomainGaugeMap (setSelectionType mode s) = []
   \<and> selectionType (setSelectionType mode s) = mode"
  by (simp add: setSelectionBy_def setSelectionType_def clearSelections_def
      clearSelectedDomains_def clearSelectedGauges_def)


section \<open>Single cardinality replaces the selection\<close>

text \<open>
  C6. Whenever \<^verbatim>\<open>selectionType\<close> is \<^verbatim>\<open>'Single'\<close>: for every truthy gauge id,
  \<^verbatim>\<open>toggleGaugeSelection\<close> leaves \<^verbatim>\<open>selectedGaugeIds\<close> equal to the one-element list
  of that id, whatever was selected before; and for every non-empty domain code,
  \<^verbatim>\<open>toggleDomainSelection\<close> leaves \<^verbatim>\<open>selectedDomainCodes\<close> equal to the one-element
  list of that code, the map with that code as its only key, and \<^verbatim>\<open>selectedGaugeIds\<close>
  (which is also the map's value) equal to the deduplicated, truthy-filtered gauge ids
  passed for the domain.
\<close>

theorem single_selection_replaces:
  assumes "selectionType s = ''Single''" and "truthy gaugeId" and "domainCode \<noteq> []"
  shows "selectedGaugeIds (toggleGaugeSelection gaugeId s) = [gaugeId]
    \<and> selectedDomainCodes (toggleDomainSelection domainCode gaugeIds s) = [domainCode]
    \<and> selectedDomainGaugeMap (toggleDomainSelection domainCode gaugeIds s)
        = [(domainCode, selectedGaugeIds (toggleDomainSelection domainCode gaugeIds s))]
    \<and> selectedGaugeIds (toggleDomainSelection domainCode gaugeIds s)
        = filter truthy (newSet gaugeIds)
    \<and> distinct (selectedGaugeIds (toggleDomainSelection domainCode gaugeIds s))
    \<and> set (selectedGaugeIds (toggleDomainSelection domainCode gaugeIds s))
        = {g \<in> set gaugeIds. truthy g}"
  using assms
  by (auto simp: toggleGaugeSelection_def toggleDomainSelection_def Let_def
      distinct_newSet set_newSet)

theorem single_selection_replaces_witness:
  "selectionType initial_store = ''Single'' \<and> truthy (JStr ''G-7'') \<and> ''0101000201'' \<noteq> []
   \<and> selectedGaugeIds (toggleGaugeSelection (JStr ''G-7'')
         (initial_store\<lparr>selectedGaugeIds := [JStr ''G-1'', JStr ''G-2'']\<rparr>)) = [JStr ''G-7'']
   \<and> selectedDomainCodes (toggleDomainSelection ''0101000201''
         [JStr ''G-1'', JNull, JStr ''G-1''] initial_store) = [''0101000201'']
   \<and> selectedGaugeIds (toggleDomainSelection ''0101000201''
         [JStr ''G-1'', JNull, JStr ''G-1''] initial_store) = [JStr ''G-1'']"
proof -
  have a: "selectionType (initial_store\<lparr>selectedGaugeIds := [JStr ''G-1'', JStr ''G-2'']\<rparr>) = ''Single''"
    by (simp add: initial_store_def)
  have b: "selectionType initial_store = ''Single''"
    by (simp add: initial_store_def)
  have c: "truthy (JStr ''G-7'')" by simp
  have d: "''0101000201'' \<noteq> []" by simp
  from single_selection_replaces [OF a c d]
       single_selection_replaces [OF b c d, of "[JStr ''G-1'', JNull, JStr ''G-1'']"]
  show ?thesis
    using b by (simp add: newSet_def)
qed


section \<open>The selections are sets\<close>

text \<open>
  C8. Starting from empty selections (in any mode and cardinality), after every sequence
  of store operations (\<^verbatim>\<open>toggleGaugeSelection\<close>, \<^verbatim>\<open>setSelectedGauges\<close>,
  \<^verbatim>\<open>toggleDomainSelection\<close>, \<^verbatim>\<open>clearSelectedGauges\<close>, \<^verbatim>\<open>clearSelectedDomains\<close>,
  \<^verbatim>\<open>clearSelections\<close>, \<^verbatim>\<open>setSelectionBy\<close>, \<^verbatim>\<open>setSelectionType\<close>) neither
  \<^verbatim>\<open>selectedGaugeIds\<close> nor \<^verbatim>\<open>selectedDomainCodes\<close> contains a duplicate or a falsy
  entry.
\<close>

theorem selection_lists_are_sets:
  "distinct (selectedGaugeIds (store_run
        \<lparr> selectedGaugeIds = [], selectedDomainCodes = [], selectedDomainGaugeMap = [],
          selectionBy = mode, selectionType = ty \<rparr> cs))
   \<and> list_all truthy (selectedGaugeIds (store_run
        \<lparr> selectedGaugeIds = [], selectedDomainCodes = [], selectedDomainGaugeMap = [],
          selectionBy = mode, selectionType = ty \<rparr> cs))
   \<and> distinct (selectedDomainCodes (store_run
        \<lparr> selectedGaugeIds = [], selectedDomainCodes = [], selectedDomainGaugeMap = [],
          selectionBy = mode, selectionType = ty \<rparr> cs))
   \<and> list_all (\<lambda>c. c \<noteq> []) (selectedDomainCodes (store_run
        \<lparr> selectedGaugeIds = [], selectedDomainCodes = [], selectedDomainGaugeMap = [],
          selectionBy = mode, selectionType = ty \<rparr> cs))"
proof -
  let ?s0 = "\<lparr> selectedGaugeIds = [], selectedDomainCodes = [], selectedDomainGaugeMap = [],
          selectionBy = mode, selectionType = ty \<rparr>"
  have "store_inv ?s0" by (simp add: store_inv_def)
  then have "store_inv (store_run ?s0 cs)" by (rule store_inv_run)
  then show ?thesis by (simp add: store_inv_def)
qed



section \<open>Toggling twice\<close>




section \<open>Properties of the containment test\<close>









lemmas geometry_eval = isPointInRing_def isPointInRing_loop.simps edgeIntersects_def
  edgeDenominator_def edgeEpsilon_def elem_def num_gt_def num_lt_def num_add_def num_sub_def
  num_mul_def num_div_def num_or_def num_lift2_def unit_square_def square_hole_def
  far_square_def Let_def


lemma in_hole: "isPointInRing (Some (3 / 2), Some (3 / 2)) square_hole"
  by (simp add: geometry_eval)

lemma not_in_hole: "\<not> isPointInRing (Some 3, Some 3) square_hole"
  by (simp add: geometry_eval)

lemma not_in_far: "\<not> isPointInRing (Some 3, Some 3) far_square"
  by (simp add: geometry_eval)

lemma in_square_2: "isPointInRing (Some (3 / 2), Some (3 / 2)) unit_square"
  by (simp add: geometry_eval)



section \<open>Properties of the query and of the click handler\<close>



























section \<open>C1: the containment test is even-odd ray casting\<close>



section \<open>C10: no division by zero, and false for geometries the test cannot use\<close>




section \<open>C2: stale HUC10 responses are discarded\<close>




section \<open>C5: the HUC10 layer holds the nested subwatersheds\<close>



section \<open>C3: results are cached by normalized HUC6 code\<close>



section \<open>C4: candidate fields first, then the intersection query\<close>



end
